theory Spec2Isabelle
  imports Complex_Main
begin

section \<open>Python values the handlers work with\<close>

text \<open>
  The request body (\<open>request.get_json()\<close>) and the provider reply (\<open>json.loads\<close>) are
  Python objects built from JSON. A \<open>str\<close> is a list of characters, one \<open>char\<close> per code
  point (code points below 256). A \<open>dict\<close> is an association list in insertion order,
  looked up from the front. The handlers do no arithmetic on floats, so a float is carried by
  the text \<open>json.dumps\<close> prints for it (\<open>float.__repr__\<close>, or \<open>NaN\<close>, \<open>Infinity\<close>,
  \<open>-Infinity\<close>).
\<close>

datatype json =
    JNull
  | JBool bool
  | JInt int
  | JFloat string
  | JStr string
  | JArr "json list"
  | JObj "(string \<times> json) list"

text \<open>The exceptions that can leave a handler (the framework turns them into an error page).\<close>

datatype exn = BadRequestKeyError | KeyError | AttributeError | TypeError | UnboundLocalError

text \<open>Python truthiness, as used by \<open>all([question, answer, job_role])\<close>.\<close>

fun truthy :: "json \<Rightarrow> bool" where
  "truthy JNull = False"
| "truthy (JBool b) = b"
| "truthy (JInt n) = (n \<noteq> 0)"
| "truthy (JFloat r) = (r \<noteq> ''0.0'' \<and> r \<noteq> ''-0.0'')"
| "truthy (JStr s) = (s \<noteq> [])"
| "truthy (JArr xs) = (xs \<noteq> [])"
| "truthy (JObj kvs) = (kvs \<noteq> [])"

text \<open>\<open>d.get(key, default)\<close>: \<open>AttributeError\<close> when \<open>d\<close> is not a dict.\<close>

definition dict_get :: "json \<Rightarrow> string \<Rightarrow> json \<Rightarrow> exn + json" where
  "dict_get d key dflt =
     (case d of
        JObj kvs \<Rightarrow> (case map_of kvs key of None \<Rightarrow> Inr dflt | Some v \<Rightarrow> Inr v)
      | _ \<Rightarrow> Inl AttributeError)"

text \<open>A dict key must be hashable: a list or a dict as key raises \<open>TypeError\<close>.\<close>

fun hashable :: "json \<Rightarrow> bool" where
  "hashable (JArr xs) = False"
| "hashable (JObj kvs) = False"
| "hashable v = True"

subsection \<open>\<open>str.strip()\<close>\<close>

definition whitespace :: "char list" where
  "whitespace = [CHR 0x09, CHR 0x0A, CHR 0x0B, CHR 0x0C, CHR 0x0D, CHR 0x1C, CHR 0x1D,
     CHR 0x1E, CHR 0x1F, CHR 0x20, CHR 0x85, CHR 0xA0]"

definition strip :: "string \<Rightarrow> string" where
  "strip s = rev (dropWhile (\<lambda>c. c \<in> set whitespace) (rev (dropWhile (\<lambda>c. c \<in> set whitespace) s)))"

subsection \<open>\<open>json.dumps\<close> with its default arguments\<close>

fun show_nat :: "nat \<Rightarrow> string" where
  "show_nat n =
     (if n < 10 then [''0123456789'' ! n]
      else show_nat (n div 10) @ [''0123456789'' ! (n mod 10)])"

declare show_nat.simps [simp del]

definition show_int :: "int \<Rightarrow> string" where
  "show_int i = (if i < 0 then ''-'' @ show_nat (nat (- i)) else show_nat (nat i))"

text \<open>
  \<open>ensure_ascii=True\<close>: the quote and the backslash are escaped, the five short escapes are
  used, every other character outside \<open>' '..'~'\<close> is written \<open>\\u00XX\<close>.
\<close>

definition escape_char :: "char \<Rightarrow> string" where
  "escape_char c =
     (if c = CHR 0x22 then [CHR 0x5C, CHR 0x22]
      else if c = CHR 0x5C then [CHR 0x5C, CHR 0x5C]
      else if c = CHR 0x08 then [CHR 0x5C, CHR ''b'']
      else if c = CHR 0x0C then [CHR 0x5C, CHR ''f'']
      else if c = CHR 0x0A then [CHR 0x5C, CHR ''n'']
      else if c = CHR 0x0D then [CHR 0x5C, CHR ''r'']
      else if c = CHR 0x09 then [CHR 0x5C, CHR ''t'']
      else if 32 \<le> (of_char c :: nat) \<and> (of_char c :: nat) \<le> 126 then [c]
      else [CHR 0x5C, CHR ''u'', CHR ''0'', CHR ''0'',
            ''0123456789abcdef'' ! ((of_char c :: nat) div 16),
            ''0123456789abcdef'' ! ((of_char c :: nat) mod 16)])"

definition quote :: "string \<Rightarrow> string" where
  "quote s = [CHR 0x22] @ concat (map escape_char s) @ [CHR 0x22]"

fun join :: "string \<Rightarrow> string list \<Rightarrow> string" where
  "join sep [] = []"
| "join sep [x] = x"
| "join sep (x # y # ys) = x @ sep @ join sep (y # ys)"

primrec json_dumps :: "json \<Rightarrow> string" where
  "json_dumps JNull = ''null''"
| "json_dumps (JBool b) = (if b then ''true'' else ''false'')"
| "json_dumps (JInt n) = show_int n"
| "json_dumps (JFloat r) = r"
| "json_dumps (JStr s) = quote s"
| "json_dumps (JArr xs) = ''['' @ join '', '' (map json_dumps xs) @ '']''"
| "json_dumps (JObj kvs) =
     ''{'' @ join '', '' (map (\<lambda>(k, t). quote k @ '': '' @ t) (map (map_prod id json_dumps) kvs))
       @ ''}''"

section \<open>models.py\<close>

text \<open>
  The rows of the tables \<open>interview\<close> and \<open>answer\<close>. The fields carry a prefix, since a
  record field is a constant of its own; \<open>created_at\<close> (the clock) is left out. The columns
  of an \<open>Answer\<close> hold whatever Python value the handler passes to the constructor.
\<close>

record Interview =
  i_id :: nat
  i_user_id :: nat
  i_job_role :: string
  i_stage :: string
  i_total_score :: real

record Answer =
  a_id :: nat
  a_interview_id :: nat
  a_question :: json
  a_answer_text :: json
  a_score :: json
  a_feedback :: json
  a_star_detected :: string
  a_stage :: json

section \<open>app.py\<close>

subsection \<open>Module state\<close>

text \<open>
  A prompt is \<open>prompt_template.format(job_role=.., question=.., answer=..)\<close>: the key of the
  template chosen from \<open>PROMPT_TEMPLATES\<close> and the three values substituted into it. The
  provider \<open>model.generate_content(prompt)\<close> followed by \<open>response.text\<close> either gives the
  reply text or raises (\<open>None\<close>).
\<close>

record prompt =
  p_template :: string
  p_job_role :: json
  p_question :: json
  p_answer :: json

type_synonym provider = "prompt \<Rightarrow> string option"

text \<open>
  What the handlers read and write: the two tables, the flashed messages of the session, the
  module global \<open>model\<close> (\<open>None\<close> when \<open>GEMINI_API_KEY\<close> is not set), and the log of calls
  made to the provider.
\<close>

record world =
  interviews :: "Interview list"
  answers :: "Answer list"
  flashed :: "string list"
  model :: "provider option"
  provider_calls :: "prompt list"

definition database :: "world \<Rightarrow> Interview list \<times> Answer list" where
  "database w = (interviews w, answers w)"

text \<open>The primary key given to a new row at commit: one more than the largest in the table.\<close>

definition next_id :: "nat list \<Rightarrow> nat" where
  "next_id ids = Suc (fold max ids 0)"

datatype response =
    Rendered string "(string \<times> json) list"
  | Redirect string
  | Json_response nat json

datatype http_method = GET | POST

subsection \<open>Constants\<close>

definition JOB_ROLES :: "string list" where
  "JOB_ROLES = [''Data Scientist'', ''Software Engineer'', ''IT Support'', ''UI/UX Designer'']"

definition QUESTIONS :: "(string \<times> (string \<times> string) list) list" where
  "QUESTIONS =
    [(''HR'',
       [(''Data Scientist'',
           ''Mengapa Anda tertarik melamar posisi Data Scientist di perusahaan ini?''),
        (''Software Engineer'',
           ''Apa yang membuat Anda tertarik pada peran Software Engineer di tim kami?''),
        (''IT Support'',
           ''Bagaimana Anda melihat peran IT Support dalam mendukung operasional perusahaan?''),
        (''UI/UX Designer'',
           ''Apa motivasi Anda untuk berkarir sebagai UI/UX Designer dan mengapa di sini?'')]),
     (''Behavioral'',
       [(''Data Scientist'',
           ''Ceritakan pengalaman Anda menangani dataset besar dan bagaimana Anda mengatasinya (gunakan STAR).''),
        (''Software Engineer'',
           ''Deskripsikan konflik tim yang Anda selesaikan (gunakan STAR).''),
        (''IT Support'',
           ''Ceritakan saat Anda menangani masalah teknis mendadak (gunakan STAR).''),
        (''UI/UX Designer'',
           ''Bagaimana Anda menangani feedback negatif dari user testing (gunakan STAR)?'')]),
     (''Technical'',
       [(''Data Scientist'',
           ''Jelaskan bagaimana Anda membangun model machine learning untuk prediksi penjualan.''),
        (''Software Engineer'',
           ''Bagaimana Anda mengoptimasi kode Python untuk performa tinggi?''),
        (''IT Support'',
           ''Jelaskan langkah troubleshooting untuk jaringan yang down.''),
        (''UI/UX Designer'',
           ''Bagaimana Anda menggunakan tools seperti Figma untuk prototyping responsif?'')])]"

text \<open>\<open>QUESTIONS[stage][job_role]\<close>: \<open>KeyError\<close> on a missing key.\<close>

definition questions_lookup :: "string \<Rightarrow> string \<Rightarrow> exn + string" where
  "questions_lookup stage job_role =
     (case map_of QUESTIONS stage of
        None \<Rightarrow> Inl KeyError
      | Some per_role \<Rightarrow>
          (case map_of per_role job_role of None \<Rightarrow> Inl KeyError | Some q \<Rightarrow> Inr q))"

text \<open>The keys of \<open>PROMPT_TEMPLATES\<close>; a template is named by its key.\<close>

definition PROMPT_TEMPLATES :: "string list" where
  "PROMPT_TEMPLATES = [''HR'', ''Behavioral'', ''Technical'']"

text \<open>\<open>PROMPT_TEMPLATES.get(stage, PROMPT_TEMPLATES['HR'])\<close>.\<close>

definition prompt_template_get :: "json \<Rightarrow> exn + string" where
  "prompt_template_get stage =
     (if \<not> hashable stage then Inl TypeError
      else (case stage of
              JStr s \<Rightarrow> if s \<in> set PROMPT_TEMPLATES then Inr s else Inr ''HR''
            | _ \<Rightarrow> Inr ''HR''))"

subsection \<open>The route \<open>/\<close>\<close>

text \<open>
  \<open>index\<close> under \<open>@login_required\<close>, for a logged-in user with id \<open>current_user_id\<close>;
  \<open>form\<close> is \<open>request.form\<close>.
\<close>

definition index ::
  "http_method \<Rightarrow> (string \<times> string) list \<Rightarrow> nat \<Rightarrow> world \<Rightarrow> (exn + response) \<times> world" where
  "index method form current_user_id w =
     (if method = POST then
        (case map_of form ''job_role'' of
           None \<Rightarrow> (Inl BadRequestKeyError, w)
         | Some job_role \<Rightarrow>
             if job_role \<notin> set JOB_ROLES then
               (Inr (Redirect ''/''), w\<lparr>flashed := flashed w @ [''Job role invalid.'']\<rparr>)
             else
               let stage = ''HR'';
                   interview = \<lparr>i_id = next_id (map i_id (interviews w)),
                                i_user_id = current_user_id, i_job_role = job_role,
                                i_stage = stage, i_total_score = 0\<rparr>;
                   w' = w\<lparr>interviews := interviews w @ [interview]\<rparr>
               in (case questions_lookup stage job_role of
                     Inl e \<Rightarrow> (Inl e, w')
                   | Inr question \<Rightarrow>
                       (Inr (Rendered ''index.html''
                          [(''job_role'', JStr job_role), (''stage'', JStr stage),
                           (''question'', JStr question), (''interview_id'', JInt (int (i_id interview))),
                           (''job_roles'', JArr (map JStr JOB_ROLES))]), w')))
      else (Inr (Rendered ''index.html'' [(''job_roles'', JArr (map JStr JOB_ROLES))]), w))"

subsection \<open>The route \<open>/submit_answer/<int:interview_id>\<close>\<close>

definition mock_result :: json where
  "mock_result =
     JObj [(''score'', JInt 4),
           (''feedback'', JStr ''Mock feedback: Jawaban baik, tapi tambah detail STAR.''),
           (''star_elements_detected'',
              JObj [(''situation'', JBool True), (''task'', JBool True),
                    (''action'', JBool False), (''result'', JBool True)])]"

definition degraded_result :: "string \<Rightarrow> json" where
  "degraded_result gemini_output =
     JObj [(''score'', JInt 3),
           (''feedback'',
              JStr (''Error parsing AI response: '' @ take 100 gemini_output @ ''. Coba lagi.'')),
           (''star_elements_detected'',
              JObj [(''situation'', JBool False), (''task'', JBool False),
                    (''action'', JBool False), (''result'', JBool False)])]"

text \<open>
  Lines 119 to 132 of \<open>submit_answer\<close>: the value of \<open>parsed\<close>. Without a model it is the mock.
  With one, the prompt is built and sent; \<open>json_loads\<close> is \<open>json.loads\<close>, \<open>None\<close> where it
  raises. When the provider raises, \<open>gemini_output\<close> has no value yet and the handler's own
  f-string raises \<open>UnboundLocalError\<close>.
\<close>

definition evaluate ::
  "(string \<Rightarrow> json option) \<Rightarrow> json \<Rightarrow> json \<Rightarrow> json \<Rightarrow> json \<Rightarrow> world \<Rightarrow> (exn + json) \<times> world" where
  "evaluate json_loads stage job_role question answer w =
     (case model w of
        None \<Rightarrow> (Inr mock_result, w)
      | Some generate_content \<Rightarrow>
          (case prompt_template_get stage of
             Inl e \<Rightarrow> (Inl e, w)
           | Inr prompt_template \<Rightarrow>
               let prompt = \<lparr>p_template = prompt_template, p_job_role = job_role,
                             p_question = question, p_answer = answer\<rparr>;
                   w' = w\<lparr>provider_calls := provider_calls w @ [prompt]\<rparr>
               in (case generate_content prompt of
                     None \<Rightarrow> (Inl UnboundLocalError, w')
                   | Some text \<Rightarrow>
                       let gemini_output = strip text
                       in (case json_loads gemini_output of
                             None \<Rightarrow> (Inr (degraded_result gemini_output), w')
                           | Some parsed \<Rightarrow> (Inr parsed, w')))))"

text \<open>
  Lines 137 to 145: the \<open>Answer\<close> object, its arguments evaluated in order; the id is the
  one the row gets when it is committed.
\<close>

definition new_answer ::
  "nat \<Rightarrow> nat \<Rightarrow> json \<Rightarrow> json \<Rightarrow> json \<Rightarrow> json \<Rightarrow> exn + Answer" where
  "new_answer row_id interview_id question answer parsed stage =
     (case dict_get parsed ''score'' (JInt 0) of
        Inl e \<Rightarrow> Inl e
      | Inr score \<Rightarrow>
          (case dict_get parsed ''feedback'' (JStr '''') of
             Inl e \<Rightarrow> Inl e
           | Inr feedback \<Rightarrow>
               (case dict_get parsed ''star_elements_detected'' (JObj []) of
                  Inl e \<Rightarrow> Inl e
                | Inr star \<Rightarrow>
                    Inr \<lparr>a_id = row_id, a_interview_id = interview_id, a_question = question,
                         a_answer_text = answer, a_score = score, a_feedback = feedback,
                         a_star_detected = json_dumps star, a_stage = stage\<rparr>)))"

text \<open>
  Modelled from the spec: the end of \<open>submit_answer\<close> after line 145, which the source file
  stops short of. The spec: the handler "persists an Answer row" (\<open>db.session.add\<close> and
  \<open>db.session.commit\<close> of the object just built) and does not update the Interview.
\<close>

definition persist_answer :: "Answer \<Rightarrow> world \<Rightarrow> world" where
  "persist_answer a w = w\<lparr>answers := answers w @ [a]\<rparr>"

text \<open>
  Modelled from the spec: the \<open>return\<close> of \<open>submit_answer\<close>, missing with the end of the
  function. The spec: the route "returns evaluation JSON", also when the ownership check
  fails ("silently skips persistence (no explicit error surfaced)").
\<close>

definition evaluation_response :: "json \<Rightarrow> response" where
  "evaluation_response parsed = Json_response 200 parsed"

text \<open>\<open>interview and interview.user_id == current_user.id\<close>, after \<open>Interview.query.get\<close>.\<close>

definition owned :: "nat \<Rightarrow> nat \<Rightarrow> world \<Rightarrow> bool" where
  "owned interview_id current_user_id w =
     (case find (\<lambda>i. i_id i = interview_id) (interviews w) of
        None \<Rightarrow> False
      | Some interview \<Rightarrow> i_user_id interview = current_user_id)"

text \<open>
  \<open>submit_answer\<close> under \<open>@login_required\<close>; \<open>data\<close> is \<open>request.get_json()\<close>.
\<close>

definition submit_answer ::
  "(string \<Rightarrow> json option) \<Rightarrow> nat \<Rightarrow> json \<Rightarrow> nat \<Rightarrow> world \<Rightarrow> (exn + response) \<times> world" where
  "submit_answer json_loads interview_id data current_user_id w =
     (case dict_get data ''stage'' (JStr ''HR'') of
        Inl e \<Rightarrow> (Inl e, w)
      | Inr stage \<Rightarrow>
     (case dict_get data ''question'' JNull of
        Inl e \<Rightarrow> (Inl e, w)
      | Inr question \<Rightarrow>
     (case dict_get data ''answer'' JNull of
        Inl e \<Rightarrow> (Inl e, w)
      | Inr answer \<Rightarrow>
     (case dict_get data ''job_role'' JNull of
        Inl e \<Rightarrow> (Inl e, w)
      | Inr job_role \<Rightarrow>
          if \<not> (truthy question \<and> truthy answer \<and> truthy job_role) then
            (Inr (Json_response 400 (JObj [(''error'', JStr ''Missing data'')])), w)
          else
            (case evaluate json_loads stage job_role question answer w of
               (Inl e, w') \<Rightarrow> (Inl e, w')
             | (Inr parsed, w') \<Rightarrow>
                 if owned interview_id current_user_id w' then
                   (case new_answer (next_id (map a_id (answers w'))) interview_id
                           question answer parsed stage of
                      Inl e \<Rightarrow> (Inl e, w')
                    | Inr a \<Rightarrow> (Inr (evaluation_response parsed), persist_answer a w'))
                 else (Inr (evaluation_response parsed), w'))))))"

subsection \<open>Runs of the application\<close>

text \<open>
  A process starts with the tables created by \<open>/init_db\<close> and empty, and serves requests one
  after the other.
\<close>

definition init_world :: "provider option \<Rightarrow> world" where
  "init_world m = \<lparr>interviews = [], answers = [], flashed = [], model = m, provider_calls = []\<rparr>"

datatype request =
    Index http_method "(string \<times> string) list" nat
  | Submit_answer nat json nat

fun handle :: "(string \<Rightarrow> json option) \<Rightarrow> request \<Rightarrow> world \<Rightarrow> (exn + response) \<times> world" where
  "handle json_loads (Index method form user) w = index method form user w"
| "handle json_loads (Submit_answer interview_id data user) w =
     submit_answer json_loads interview_id data user w"

fun run :: "(string \<Rightarrow> json option) \<Rightarrow> world \<Rightarrow> request list \<Rightarrow> world" where
  "run json_loads w [] = w"
| "run json_loads w (r # rs) = run json_loads (snd (handle json_loads r w)) rs"

section \<open>Helper lemmas\<close>

lemma fold_max_ge: "x \<in> set ids \<Longrightarrow> x \<le> fold max ids (m::nat)"
proof (induction ids arbitrary: m)
  case Nil then show ?case by simp
next
  case (Cons y ys)
  have mono: "\<And>k. k \<le> fold max ys (k::nat)"
  proof -
    fix k show "k \<le> fold max ys (k::nat)"
      by (induction ys arbitrary: k) (auto intro: order_trans [OF max.cobounded2])
  qed
  from Cons show ?case
    by (auto intro: order_trans [OF max.cobounded1 mono])
qed

lemma next_id_fresh: "next_id ids \<notin> set ids"
  using fold_max_ge [of "next_id ids" ids 0] by (auto simp: next_id_def)

lemma evaluate_frame:
  "evaluate json_loads stage job_role question answer w = (r, w') \<Longrightarrow>
     interviews w' = interviews w \<and> answers w' = answers w \<and> flashed w' = flashed w \<and> model w' = model w"
  by (auto simp: evaluate_def Let_def split: option.splits sum.splits)

lemma evaluate_owned:
  "evaluate json_loads stage job_role question answer w = (r, w') \<Longrightarrow>
     owned interview_id u w' = owned interview_id u w"
  by (drule evaluate_frame) (simp add: owned_def)

lemma submit_answer_valid:
  assumes "dict_get data ''stage'' (JStr ''HR'') = Inr stage"
    and "dict_get data ''question'' JNull = Inr question"
    and "dict_get data ''answer'' JNull = Inr answer"
    and "dict_get data ''job_role'' JNull = Inr job_role"
    and "truthy question" and "truthy answer" and "truthy job_role"
    and "evaluate json_loads stage job_role question answer w = (Inr parsed, w')"
  shows "submit_answer json_loads interview_id data u w =
     (if owned interview_id u w then
        (case new_answer (next_id (map a_id (answers w))) interview_id question answer parsed stage of
           Inl e \<Rightarrow> (Inl e, w')
         | Inr a \<Rightarrow> (Inr (evaluation_response parsed), persist_answer a w'))
      else (Inr (evaluation_response parsed), w'))"
  using assms evaluate_frame [OF assms(8)] evaluate_owned [OF assms(8)]
  by (simp add: submit_answer_def)

lemma evaluate_reply:
  assumes "model w = Some generate_content"
    and "prompt_template_get stage = Inr prompt_template"
    and "generate_content \<lparr>p_template = prompt_template, p_job_role = job_role,
            p_question = question, p_answer = answer\<rparr> = Some reply"
  shows "evaluate json_loads stage job_role question answer w =
     (Inr (case json_loads (strip reply) of
             None \<Rightarrow> degraded_result (strip reply) | Some parsed \<Rightarrow> parsed),
      w\<lparr>provider_calls := provider_calls w @
           [\<lparr>p_template = prompt_template, p_job_role = job_role,
             p_question = question, p_answer = answer\<rparr>]\<rparr>)"
  using assms by (simp add: evaluate_def Let_def split: option.splits)

lemma evaluate_raises:
  assumes "model w = Some generate_content"
    and "prompt_template_get stage = Inr prompt_template"
    and "generate_content \<lparr>p_template = prompt_template, p_job_role = job_role,
            p_question = question, p_answer = answer\<rparr> = None"
  shows "evaluate json_loads stage job_role question answer w =
     (Inl UnboundLocalError,
      w\<lparr>provider_calls := provider_calls w @
           [\<lparr>p_template = prompt_template, p_job_role = job_role,
             p_question = question, p_answer = answer\<rparr>]\<rparr>)"
  using assms by (simp add: evaluate_def Let_def)

lemma evaluate_mock:
  "model w = None \<Longrightarrow> evaluate json_loads stage job_role question answer w = (Inr mock_result, w)"
  by (simp add: evaluate_def)

lemma new_answer_stage:
  "new_answer row_id interview_id question answer parsed stage = Inr a \<Longrightarrow> a_stage a = stage"
  by (auto simp: new_answer_def split: sum.splits)

lemma submit_answer_effect:
  fixes json_loads interview_id data u w
  defines "w2 \<equiv> snd (submit_answer json_loads interview_id data u w)"
  shows "interviews w2 = interviews w \<and> model w2 = model w \<and> flashed w2 = flashed w
     \<and> (model w = None \<longrightarrow> provider_calls w2 = provider_calls w)
     \<and> (answers w2 = answers w
        \<or> (\<exists>a. answers w2 = answers w @ [a]
              \<and> dict_get data ''stage'' (JStr ''HR'') = Inr (a_stage a)
              \<and> owned interview_id u w))"
proof (cases "dict_get data ''stage'' (JStr ''HR'')")
  case (Inl e)
  then show ?thesis by (simp add: w2_def submit_answer_def)
next
  case stage: (Inr stage)
  show ?thesis
  proof (cases "dict_get data ''question'' JNull")
    case (Inl e)
    then show ?thesis using stage by (simp add: w2_def submit_answer_def)
  next
    case question: (Inr question)
    show ?thesis
    proof (cases "dict_get data ''answer'' JNull")
      case (Inl e)
      then show ?thesis using stage question by (simp add: w2_def submit_answer_def)
    next
      case answer: (Inr answer)
      show ?thesis
      proof (cases "dict_get data ''job_role'' JNull")
        case (Inl e)
        then show ?thesis using stage question answer by (simp add: w2_def submit_answer_def)
      next
        case job_role: (Inr job_role)
        obtain r w' where ev: "evaluate json_loads stage job_role question answer w = (r, w')"
          by (cases "evaluate json_loads stage job_role question answer w")
        note fr = evaluate_frame [OF ev]
        have calls: "model w = None \<longrightarrow> provider_calls w' = provider_calls w"
          using ev evaluate_mock [of w json_loads stage job_role question answer] by auto
        show ?thesis
        proof (cases "truthy question \<and> truthy answer \<and> truthy job_role")
          case False
          then show ?thesis using stage question answer job_role
            by (simp add: w2_def submit_answer_def)
        next
          case True
          show ?thesis
          proof (cases r)
            case (Inl e)
            then have "w2 = w'"
              using stage question answer job_role True ev by (simp add: w2_def submit_answer_def)
            then show ?thesis using fr calls by simp
          next
            case (Inr parsed)
            show ?thesis
            proof (cases "owned interview_id u w'")
              case False
              then have "w2 = w'"
                using stage question answer job_role True ev Inr
                by (simp add: w2_def submit_answer_def)
              then show ?thesis using fr calls by simp
            next
              case own: True
              show ?thesis
              proof (cases "new_answer (next_id (map a_id (answers w'))) interview_id
                              question answer parsed stage")
                case (Inl e)
                then have "w2 = w'"
                  using stage question answer job_role True ev Inr own
                  by (simp add: w2_def submit_answer_def)
                then show ?thesis using fr calls by simp
              next
                case a: (Inr a)
                then have "w2 = persist_answer a w'"
                  using stage question answer job_role True ev Inr own
                  by (simp add: w2_def submit_answer_def)
                then show ?thesis
                  using fr calls stage new_answer_stage [OF a] own evaluate_owned [OF ev]
                  by (simp add: persist_answer_def)
              qed
            qed
          qed
        qed
      qed
    qed
  qed
qed

lemma index_effect:
  fixes meth form u w
  defines "w2 \<equiv> snd (index meth form u w)"
  shows "answers w2 = answers w \<and> model w2 = model w \<and> provider_calls w2 = provider_calls w
     \<and> (interviews w2 = interviews w
        \<or> (\<exists>interview. interviews w2 = interviews w @ [interview]
              \<and> i_stage interview = ''HR'' \<and> i_total_score interview = 0))"
  unfolding w2_def index_def Let_def
  by (simp split: option.split sum.split)

lemma index_answers: "answers (snd (index meth form u w)) = answers w"
  using index_effect [of meth form u w] by (elim conjE)

lemma index_model: "model (snd (index meth form u w)) = model w"
  using index_effect [of meth form u w] by (elim conjE)

lemma index_provider_calls: "provider_calls (snd (index meth form u w)) = provider_calls w"
  using index_effect [of meth form u w] by (elim conjE)

lemma index_interviews:
  "interviews (snd (index meth form u w)) = interviews w
   \<or> (\<exists>interview. interviews (snd (index meth form u w)) = interviews w @ [interview]
         \<and> i_stage interview = ''HR'' \<and> i_total_score interview = 0)"
  using index_effect [of meth form u w] by (elim conjE)

lemma submit_answer_interviews:
  "interviews (snd (submit_answer json_loads interview_id data u w)) = interviews w"
  using submit_answer_effect [of json_loads interview_id data u w] by (elim conjE)

lemma submit_answer_model:
  "model (snd (submit_answer json_loads interview_id data u w)) = model w"
  using submit_answer_effect [of json_loads interview_id data u w] by (elim conjE)

lemma submit_answer_no_calls:
  "model w = None \<Longrightarrow>
   provider_calls (snd (submit_answer json_loads interview_id data u w)) = provider_calls w"
  using submit_answer_effect [of json_loads interview_id data u w] by (elim conjE) (rule mp)

lemma submit_answer_answers:
  "answers (snd (submit_answer json_loads interview_id data u w)) = answers w
   \<or> (\<exists>a. answers (snd (submit_answer json_loads interview_id data u w)) = answers w @ [a]
         \<and> dict_get data ''stage'' (JStr ''HR'') = Inr (a_stage a)
         \<and> owned interview_id u w)"
  using submit_answer_effect [of json_loads interview_id data u w] by (elim conjE)

lemma handle_model: "model (snd (handle json_loads r w)) = model w"
  by (cases r) (simp_all only: handle.simps index_model submit_answer_model)

lemma run_model: "model (run json_loads w requests) = model w"
  by (induction requests arbitrary: w) (simp_all only: run.simps handle_model)

lemma run_no_calls:
  "model w = None \<Longrightarrow> provider_calls (run json_loads w requests) = provider_calls w"
proof (induction requests arbitrary: w)
  case Nil
  show ?case by simp
next
  case (Cons r rs)
  have m: "model (snd (handle json_loads r w)) = None"
    using Cons.prems by (simp only: handle_model)
  have c: "provider_calls (snd (handle json_loads r w)) = provider_calls w"
    using Cons.prems
    by (cases r) (simp_all only: handle.simps index_provider_calls submit_answer_no_calls)
  show ?case using Cons.IH [OF m] c by simp
qed

lemma json_dumps_mock_flags:
  \<open>json_dumps (JObj [(''situation'', JBool True), (''task'', JBool True),
                    (''action'', JBool False), (''result'', JBool True)])
      = ''{"situation": true, "task": true, "action": false, "result": true}''\<close>
  by (simp add: quote_def escape_char_def)

lemma new_answer_mock:
  \<open>new_answer row_id interview_id question answer mock_result stage =
     Inr \<lparr>a_id = row_id, a_interview_id = interview_id,
           a_question = question, a_answer_text = answer, a_score = JInt 4,
           a_feedback = JStr ''Mock feedback: Jawaban baik, tapi tambah detail STAR.'',
           a_star_detected = ''{"situation": true, "task": true, "action": false, "result": true}'',
           a_stage = stage\<rparr>\<close>
  unfolding new_answer_def mock_result_def dict_get_def
  by (simp add: json_dumps_mock_flags del: json_dumps.simps)

lemma provider_error_escapes:
  assumes "dict_get data ''stage'' (JStr ''HR'') = Inr stage"
    and "dict_get data ''question'' JNull = Inr question"
    and "dict_get data ''answer'' JNull = Inr answer"
    and "dict_get data ''job_role'' JNull = Inr job_role"
    and "truthy question" and "truthy answer" and "truthy job_role"
    and "model w = Some generate_content"
    and "prompt_template_get stage = Inr prompt_template"
    and "generate_content \<lparr>p_template = prompt_template, p_job_role = job_role,
            p_question = question, p_answer = answer\<rparr> = None"
  shows "submit_answer json_loads interview_id data current_user_id w =
     (Inl UnboundLocalError,
      w\<lparr>provider_calls := provider_calls w @
           [\<lparr>p_template = prompt_template, p_job_role = job_role,
             p_question = question, p_answer = answer\<rparr>]\<rparr>)"
  using assms evaluate_raises [OF assms(8,9,10), of json_loads]
  by (simp add: submit_answer_def)

lemma json_dumps_no_flags:
  \<open>json_dumps (JObj [(''situation'', JBool False), (''task'', JBool False),
                    (''action'', JBool False), (''result'', JBool False)])
      = ''{"situation": false, "task": false, "action": false, "result": false}''\<close>
  by (simp add: quote_def escape_char_def)

lemma parse_failure_gives_degraded_result:
  assumes "dict_get data ''stage'' (JStr ''HR'') = Inr stage"
    and "dict_get data ''question'' JNull = Inr question"
    and "dict_get data ''answer'' JNull = Inr answer"
    and "dict_get data ''job_role'' JNull = Inr job_role"
    and "truthy question" and "truthy answer" and "truthy job_role"
    and "model w = Some generate_content"
    and "prompt_template_get stage = Inr prompt_template"
    and "generate_content \<lparr>p_template = prompt_template, p_job_role = job_role,
            p_question = question, p_answer = answer\<rparr> = Some reply"
    and "json_loads (strip reply) = None"
    and "owned interview_id current_user_id w"
  shows \<open>submit_answer json_loads interview_id data current_user_id w =
     (Inr (Json_response 200 (degraded_result (strip reply))),
      w\<lparr>provider_calls := provider_calls w @
           [\<lparr>p_template = prompt_template, p_job_role = job_role,
             p_question = question, p_answer = answer\<rparr>],
        answers := answers w @
           [\<lparr>a_id = next_id (map a_id (answers w)), a_interview_id = interview_id,
             a_question = question, a_answer_text = answer, a_score = JInt 3,
             a_feedback = JStr (''Error parsing AI response: '' @ take 100 (strip reply)
                                 @ ''. Coba lagi.''),
             a_star_detected = ''{"situation": false, "task": false, "action": false, "result": false}'',
             a_stage = stage\<rparr>]\<rparr>)\<close>
proof -
  have ev: "evaluate json_loads stage job_role question answer w =
     (Inr (degraded_result (strip reply)),
      w\<lparr>provider_calls := provider_calls w @
           [\<lparr>p_template = prompt_template, p_job_role = job_role,
             p_question = question, p_answer = answer\<rparr>]\<rparr>)"
    using evaluate_reply [OF assms(8,9,10), of json_loads] assms(11) by simp
  have na: \<open>new_answer row_id interview_id question answer (degraded_result (strip reply)) stage =
     Inr \<lparr>a_id = row_id, a_interview_id = interview_id,
             a_question = question, a_answer_text = answer, a_score = JInt 3,
             a_feedback = JStr (''Error parsing AI response: '' @ take 100 (strip reply)
                                 @ ''. Coba lagi.''),
             a_star_detected = ''{"situation": false, "task": false, "action": false, "result": false}'',
             a_stage = stage\<rparr>\<close> for row_id
    unfolding new_answer_def degraded_result_def dict_get_def
    by (simp add: json_dumps_no_flags del: json_dumps.simps)
  show ?thesis
    unfolding submit_answer_valid [OF assms(1-7) ev] na
    using assms(12) by (simp add: persist_answer_def evaluation_response_def)
qed

lemma dict_get_append_stage:
  "map_of d ''stage'' = None \<Longrightarrow> key \<noteq> ''stage'' \<Longrightarrow>
   dict_get (JObj (d @ [(''stage'', v)])) key dflt = dict_get (JObj d) key dflt"
  by (simp add: dict_get_def map_add_def split: option.split)

lemma handle_interviews:
  "set (interviews (snd (handle json_loads r w)))
     \<subseteq> set (interviews w) \<union> {i. i_stage i = ''HR'' \<and> i_total_score i = 0}"
proof (cases r)
  case (Index meth form u)
  from index_interviews [of meth form u w] show ?thesis
  proof
    assume "interviews (snd (index meth form u w)) = interviews w"
    then show ?thesis using Index by simp
  next
    assume "\<exists>interview. interviews (snd (index meth form u w)) = interviews w @ [interview]
         \<and> i_stage interview = ''HR'' \<and> i_total_score interview = 0"
    then obtain interview where
      "interviews (snd (index meth form u w)) = interviews w @ [interview]"
      "i_stage interview = ''HR''" "i_total_score interview = 0"
      by blast
    then show ?thesis using Index by auto
  qed
next
  case (Submit_answer interview_id data u)
  then show ?thesis by (simp add: submit_answer_interviews)
qed

lemma run_interviews:
  "set (interviews (run json_loads w requests))
     \<subseteq> set (interviews w) \<union> {i. i_stage i = ''HR'' \<and> i_total_score i = 0}"
proof (induction requests arbitrary: w)
  case Nil
  show ?case by simp
next
  case (Cons r rs)
  have "set (interviews (run json_loads (snd (handle json_loads r w)) rs))
     \<subseteq> set (interviews (snd (handle json_loads r w)))
         \<union> {i. i_stage i = ''HR'' \<and> i_total_score i = 0}"
    by (rule Cons.IH)
  with handle_interviews [of json_loads r w] show ?case
    by (simp only: run.simps) blast
qed

lemma handle_answers:
  "set (answers (snd (handle json_loads r w)))
     \<subseteq> set (answers w)
       \<union> {a. \<exists>interview_id data u. r = Submit_answer interview_id data u
                \<and> dict_get data ''stage'' (JStr ''HR'') = Inr (a_stage a)}"
proof (cases r)
  case (Index meth form u)
  then show ?thesis by (simp add: index_answers)
next
  case (Submit_answer interview_id data u)
  from submit_answer_answers [of json_loads interview_id data u w] show ?thesis
  proof
    assume "answers (snd (submit_answer json_loads interview_id data u w)) = answers w"
    then show ?thesis using Submit_answer by simp
  next
    assume "\<exists>a. answers (snd (submit_answer json_loads interview_id data u w)) = answers w @ [a]
         \<and> dict_get data ''stage'' (JStr ''HR'') = Inr (a_stage a)
         \<and> owned interview_id u w"
    then obtain a where
      "answers (snd (submit_answer json_loads interview_id data u w)) = answers w @ [a]"
      "dict_get data ''stage'' (JStr ''HR'') = Inr (a_stage a)"
      by blast
    then show ?thesis using Submit_answer by auto
  qed
qed

lemma run_answers:
  "set (answers (run json_loads w requests))
     \<subseteq> set (answers w)
       \<union> {a. \<exists>interview_id data u. Submit_answer interview_id data u \<in> set requests
                \<and> dict_get data ''stage'' (JStr ''HR'') = Inr (a_stage a)}"
proof (induction requests arbitrary: w)
  case Nil
  show ?case by simp
next
  case (Cons r rs)
  have "set (answers (run json_loads (snd (handle json_loads r w)) rs))
     \<subseteq> set (answers (snd (handle json_loads r w)))
       \<union> {a. \<exists>interview_id data u. Submit_answer interview_id data u \<in> set rs
                \<and> dict_get data ''stage'' (JStr ''HR'') = Inr (a_stage a)}"
    by (rule Cons.IH)
  with handle_answers [of json_loads r w] show ?case
    by (simp only: run.simps set_simps) blast
qed

lemma example_run:
  \<open>run (\<lambda>s. None) (init_world None)
     [Index POST [(''job_role'', ''UI/UX Designer'')] 7,
      Submit_answer 1 (JObj [(''stage'', JStr ''Technical''), (''question'', JStr ''Q''),
         (''answer'', JStr ''A''), (''job_role'', JStr ''UI/UX Designer'')]) 7]
   = \<lparr>interviews = [\<lparr>i_id = 1, i_user_id = 7, i_job_role = ''UI/UX Designer'',
                      i_stage = ''HR'', i_total_score = 0\<rparr>],
      answers = [\<lparr>a_id = 1, a_interview_id = 1, a_question = JStr ''Q'',
                   a_answer_text = JStr ''A'', a_score = JInt 4,
                   a_feedback = JStr ''Mock feedback: Jawaban baik, tapi tambah detail STAR.'',
                   a_star_detected = ''{"situation": true, "task": true, "action": false, "result": true}'',
                   a_stage = JStr ''Technical''\<rparr>],
      flashed = [], model = None, provider_calls = []\<rparr>\<close>
proof -
  have w: "snd (index POST [(''job_role'', ''UI/UX Designer'')] 7 (init_world None))
      = \<lparr>interviews = [\<lparr>i_id = 1, i_user_id = 7, i_job_role = ''UI/UX Designer'',
                         i_stage = ''HR'', i_total_score = 0\<rparr>],
         answers = [], flashed = [], model = None, provider_calls = []\<rparr>"
    by (simp add: index_def Let_def JOB_ROLES_def questions_lookup_def QUESTIONS_def
          init_world_def next_id_def)
  have ev: "evaluate (\<lambda>s. None) (JStr ''Technical'') (JStr ''UI/UX Designer'') (JStr ''Q'')
      (JStr ''A'')
      \<lparr>interviews = [\<lparr>i_id = 1, i_user_id = 7, i_job_role = ''UI/UX Designer'',
                         i_stage = ''HR'', i_total_score = 0\<rparr>],
         answers = [], flashed = [], model = None, provider_calls = []\<rparr>
    = (Inr mock_result,
       \<lparr>interviews = [\<lparr>i_id = 1, i_user_id = 7, i_job_role = ''UI/UX Designer'',
                         i_stage = ''HR'', i_total_score = 0\<rparr>],
         answers = [], flashed = [], model = None, provider_calls = []\<rparr>)"
    by (rule evaluate_mock) simp
  show ?thesis
    unfolding run.simps handle.simps w
    by (subst submit_answer_valid [OF _ _ _ _ _ _ _ ev])
      (simp_all add: dict_get_def new_answer_mock owned_def next_id_def persist_answer_def
         evaluation_response_def)
qed

lemma HR_question:
  "questions_lookup ''HR'' ''Data Scientist'' =
     Inr ''Mengapa Anda tertarik melamar posisi Data Scientist di perusahaan ini?''"
  "questions_lookup ''HR'' ''Software Engineer'' =
     Inr ''Apa yang membuat Anda tertarik pada peran Software Engineer di tim kami?''"
  "questions_lookup ''HR'' ''IT Support'' =
     Inr ''Bagaimana Anda melihat peran IT Support dalam mendukung operasional perusahaan?''"
  "questions_lookup ''HR'' ''UI/UX Designer'' =
     Inr ''Apa motivasi Anda untuk berkarir sebagai UI/UX Designer dan mengapa di sini?''"
  by (simp_all add: questions_lookup_def QUESTIONS_def)

lemma JOB_ROLES_set:
  "set JOB_ROLES = {''Data Scientist'', ''Software Engineer'', ''IT Support'', ''UI/UX Designer''}"
  by (simp add: JOB_ROLES_def)

lemma index_accepts:
  assumes "map_of form ''job_role'' = Some job_role"
    and "job_role \<in> set JOB_ROLES"
    and "questions_lookup ''HR'' job_role = Inr q"
  shows "index POST form current_user_id w =
             (Inr (Rendered ''index.html''
                [(''job_role'', JStr job_role), (''stage'', JStr ''HR''),
                 (''question'', JStr q),
                 (''interview_id'', JInt (int (next_id (map i_id (interviews w))))),
                 (''job_roles'', JArr (map JStr JOB_ROLES))]),
              w\<lparr>interviews := interviews w @
                 [\<lparr>i_id = next_id (map i_id (interviews w)), i_user_id = current_user_id,
                   i_job_role = job_role, i_stage = ''HR'', i_total_score = 0\<rparr>]\<rparr>)"
  using assms by (simp add: index_def Let_def)

lemma HR_table:
  assumes "job_role \<in> {''Data Scientist'', ''Software Engineer'', ''IT Support'', ''UI/UX Designer''}"
  shows "\<exists>q. questions_lookup ''HR'' job_role = Inr q
     \<and> map_of
          [(''Data Scientist'',
              ''Mengapa Anda tertarik melamar posisi Data Scientist di perusahaan ini?''),
           (''Software Engineer'',
              ''Apa yang membuat Anda tertarik pada peran Software Engineer di tim kami?''),
           (''IT Support'',
              ''Bagaimana Anda melihat peran IT Support dalam mendukung operasional perusahaan?''),
           (''UI/UX Designer'',
              ''Apa motivasi Anda untuk berkarir sebagai UI/UX Designer dan mengapa di sini?'')]
          job_role = Some q
     \<and> (job_role = ''Software Engineer'' \<longrightarrow>
          q = ''Apa yang membuat Anda tertarik pada peran Software Engineer di tim kami?'')"
  using assms
proof (elim insertE emptyE)
  assume "job_role = ''Data Scientist''"
  then show ?thesis by (simp add: HR_question)
next
  assume "job_role = ''Software Engineer''"
  then show ?thesis by (simp add: HR_question)
next
  assume "job_role = ''IT Support''"
  then show ?thesis by (simp add: HR_question)
next
  assume "job_role = ''UI/UX Designer''"
  then show ?thesis by (simp add: HR_question)
qed

section \<open>Starting an interview\<close>

text \<open>
  Claim C5. A POST to \<open>/\<close> whose \<open>job_role\<close> is not one of the four \<open>JOB_ROLES\<close> is
  refused: the message \<open>Job role invalid.\<close> is flashed, the reply is a redirect to the
  index page, and no row is added: both tables are as before.
\<close>

theorem index_rejects_unknown_job_role:
  assumes "map_of form ''job_role'' = Some job_role"
    and "job_role \<notin> set JOB_ROLES"
  shows "index POST form current_user_id w =
           (Inr (Redirect ''/''), w\<lparr>flashed := flashed w @ [''Job role invalid.'']\<rparr>)
         \<and> database (snd (index POST form current_user_id w)) = database w"
  using assms by (simp add: index_def database_def)

theorem index_rejects_unknown_job_role_witness:
  "index POST [(''job_role'', ''Astronaut'')] 7 (init_world None) =
     (Inr (Redirect ''/''), (init_world None)\<lparr>flashed := [''Job role invalid.'']\<rparr>)
   \<and> database (snd (index POST [(''job_role'', ''Astronaut'')] 7 (init_world None)))
       = ([], [])"
  using index_rejects_unknown_job_role
    [of "[(''job_role'', ''Astronaut'')]" "''Astronaut''" 7 "init_world None"]
  by (simp add: JOB_ROLES_def init_world_def database_def)

text \<open>
  Claim C6. A POST to \<open>/\<close> with a \<open>job_role\<close> among Data Scientist, Software Engineer,
  IT Support and UI/UX Designer appends exactly one \<open>Interview\<close> row, with a fresh id, stage
  \<open>HR\<close>, that job role and the current user's id, and renders the page with the HR question
  of the question bank for that role, each of the four spelled out below; for
  \<open>Software Engineer\<close> it is the fixed HR prompt of that role.
\<close>

theorem index_starts_interview:
  assumes "map_of form ''job_role'' = Some job_role"
    and "job_role \<in> {''Data Scientist'', ''Software Engineer'', ''IT Support'', ''UI/UX Designer''}"
  shows "\<exists>question interview.
           job_role \<in> set JOB_ROLES
         \<and> questions_lookup ''HR'' job_role = Inr question
         \<and> map_of
              [(''Data Scientist'',
                  ''Mengapa Anda tertarik melamar posisi Data Scientist di perusahaan ini?''),
               (''Software Engineer'',
                  ''Apa yang membuat Anda tertarik pada peran Software Engineer di tim kami?''),
               (''IT Support'',
                  ''Bagaimana Anda melihat peran IT Support dalam mendukung operasional perusahaan?''),
               (''UI/UX Designer'',
                  ''Apa motivasi Anda untuk berkarir sebagai UI/UX Designer dan mengapa di sini?'')]
              job_role = Some question
         \<and> interview = \<lparr>i_id = next_id (map i_id (interviews w)), i_user_id = current_user_id,
                          i_job_role = job_role, i_stage = ''HR'', i_total_score = 0\<rparr>
         \<and> i_id interview \<notin> i_id ` set (interviews w)
         \<and> index POST form current_user_id w =
             (Inr (Rendered ''index.html''
                [(''job_role'', JStr job_role), (''stage'', JStr ''HR''),
                 (''question'', JStr question), (''interview_id'', JInt (int (i_id interview))),
                 (''job_roles'',
                    JArr [JStr ''Data Scientist'', JStr ''Software Engineer'', JStr ''IT Support'',
                          JStr ''UI/UX Designer''])]),
              w\<lparr>interviews := interviews w @ [interview]\<rparr>)
         \<and> (job_role = ''Software Engineer'' \<longrightarrow>
              question = ''Apa yang membuat Anda tertarik pada peran Software Engineer di tim kami?'')"
proof -
  have role: "job_role \<in> set JOB_ROLES"
    using assms(2) by (simp only: JOB_ROLES_set)
  from HR_table [OF assms(2)] obtain q where
    q: "questions_lookup ''HR'' job_role = Inr q"
    and table: "map_of
              [(''Data Scientist'',
                  ''Mengapa Anda tertarik melamar posisi Data Scientist di perusahaan ini?''),
               (''Software Engineer'',
                  ''Apa yang membuat Anda tertarik pada peran Software Engineer di tim kami?''),
               (''IT Support'',
                  ''Bagaimana Anda melihat peran IT Support dalam mendukung operasional perusahaan?''),
               (''UI/UX Designer'',
                  ''Apa motivasi Anda untuk berkarir sebagai UI/UX Designer dan mengapa di sini?'')]
              job_role = Some q"
    and se: "job_role = ''Software Engineer'' \<longrightarrow>
      q = ''Apa yang membuat Anda tertarik pada peran Software Engineer di tim kami?''"
    by blast
  have fresh: "next_id (map i_id (interviews w)) \<notin> i_id ` set (interviews w)"
    using next_id_fresh [of "map i_id (interviews w)"] by simp
  have roles: "map JStr JOB_ROLES =
      [JStr ''Data Scientist'', JStr ''Software Engineer'', JStr ''IT Support'',
       JStr ''UI/UX Designer'']"
    by (simp add: JOB_ROLES_def)
  note run = index_accepts [OF assms(1) role q, of current_user_id w, unfolded roles]
  let ?interview = "\<lparr>i_id = next_id (map i_id (interviews w)), i_user_id = current_user_id,
                     i_job_role = job_role, i_stage = ''HR'', i_total_score = 0\<rparr>"
  have id: "i_id ?interview = next_id (map i_id (interviews w))" by simp
  show ?thesis
    apply (rule exI [of _ q])
    apply (rule exI [of _ ?interview])
    apply (intro conjI)
          apply (rule role)
         apply (rule q)
        apply (rule table)
       apply (rule refl)
      apply (simp only: id fresh not_False_eq_True)
     apply (simp only: id run)
    apply (rule se)
    done
qed

theorem index_starts_interview_witness:
  "index POST [(''job_role'', ''IT Support'')] 9 (init_world None) =
     (Inr (Rendered ''index.html''
        [(''job_role'', JStr ''IT Support''), (''stage'', JStr ''HR''),
         (''question'',
            JStr ''Bagaimana Anda melihat peran IT Support dalam mendukung operasional perusahaan?''),
         (''interview_id'', JInt 1),
         (''job_roles'',
            JArr [JStr ''Data Scientist'', JStr ''Software Engineer'', JStr ''IT Support'',
                  JStr ''UI/UX Designer''])]),
      \<lparr>interviews =
         [\<lparr>i_id = 1, i_user_id = 9, i_job_role = ''IT Support'', i_stage = ''HR'',
           i_total_score = 0\<rparr>],
       answers = [], flashed = [], model = None, provider_calls = []\<rparr>)"
proof -
  have h1: "map_of [(''job_role'', ''IT Support'')] ''job_role'' = Some ''IT Support''"
    by simp
  have h2: "''IT Support'' \<in> {''Data Scientist'', ''Software Engineer'', ''IT Support'',
      ''UI/UX Designer''}"
    by simp
  from index_starts_interview [OF h1 h2, of "init_world None" 9]
  obtain question interview where
    t: "map_of
              [(''Data Scientist'',
                  ''Mengapa Anda tertarik melamar posisi Data Scientist di perusahaan ini?''),
               (''Software Engineer'',
                  ''Apa yang membuat Anda tertarik pada peran Software Engineer di tim kami?''),
               (''IT Support'',
                  ''Bagaimana Anda melihat peran IT Support dalam mendukung operasional perusahaan?''),
               (''UI/UX Designer'',
                  ''Apa motivasi Anda untuk berkarir sebagai UI/UX Designer dan mengapa di sini?'')]
              ''IT Support'' = Some question"
    and i: "interview = \<lparr>i_id = next_id (map i_id (interviews (init_world None))),
              i_user_id = 9, i_job_role = ''IT Support'', i_stage = ''HR'', i_total_score = 0\<rparr>"
    and r: "index POST [(''job_role'', ''IT Support'')] 9 (init_world None) =
             (Inr (Rendered ''index.html''
                [(''job_role'', JStr ''IT Support''), (''stage'', JStr ''HR''),
                 (''question'', JStr question), (''interview_id'', JInt (int (i_id interview))),
                 (''job_roles'',
                    JArr [JStr ''Data Scientist'', JStr ''Software Engineer'', JStr ''IT Support'',
                          JStr ''UI/UX Designer''])]),
              (init_world None)\<lparr>interviews := interviews (init_world None) @ [interview]\<rparr>)"
    by blast
  have q: "question =
      ''Bagaimana Anda melihat peran IT Support dalam mendukung operasional perusahaan?''"
    using t by simp
  have i': "interview = \<lparr>i_id = 1, i_user_id = 9, i_job_role = ''IT Support'', i_stage = ''HR'',
      i_total_score = 0\<rparr>"
    unfolding i by (simp add: init_world_def next_id_def)
  show ?thesis
    unfolding r q i' by (simp add: init_world_def)
qed

section \<open>Submitting an answer\<close>

text \<open>
  Claim C2. With a provider configured whose reply parses as a JSON object that has the keys
  \<open>score\<close>, \<open>feedback\<close> and \<open>star_elements_detected\<close>, a valid submission to an
  interview of the current user stores one \<open>Answer\<close> whose score and feedback are the
  values of the parsed reply and whose \<open>star_detected\<close> is \<open>json.dumps\<close> of its flags;
  the response is the parsed reply.
\<close>

theorem submit_answer_stores_parsed_reply:
  assumes "dict_get data ''stage'' (JStr ''HR'') = Inr stage"
    and "dict_get data ''question'' JNull = Inr question"
    and "dict_get data ''answer'' JNull = Inr answer"
    and "dict_get data ''job_role'' JNull = Inr job_role"
    and "truthy question" and "truthy answer" and "truthy job_role"
    and "model w = Some generate_content"
    and "prompt_template_get stage = Inr prompt_template"
    and "generate_content \<lparr>p_template = prompt_template, p_job_role = job_role,
            p_question = question, p_answer = answer\<rparr> = Some reply"
    and "json_loads (strip reply) = Some (JObj kvs)"
    and "map_of kvs ''score'' = Some score"
    and "map_of kvs ''feedback'' = Some feedback"
    and "map_of kvs ''star_elements_detected'' = Some star"
    and "owned interview_id current_user_id w"
  shows "submit_answer json_loads interview_id data current_user_id w =
     (Inr (Json_response 200 (JObj kvs)),
      w\<lparr>provider_calls := provider_calls w @
           [\<lparr>p_template = prompt_template, p_job_role = job_role,
             p_question = question, p_answer = answer\<rparr>],
        answers := answers w @
           [\<lparr>a_id = next_id (map a_id (answers w)), a_interview_id = interview_id,
             a_question = question, a_answer_text = answer, a_score = score,
             a_feedback = feedback, a_star_detected = json_dumps star, a_stage = stage\<rparr>]\<rparr>)"
proof -
  have ev: "evaluate json_loads stage job_role question answer w =
     (Inr (JObj kvs),
      w\<lparr>provider_calls := provider_calls w @
           [\<lparr>p_template = prompt_template, p_job_role = job_role,
             p_question = question, p_answer = answer\<rparr>]\<rparr>)"
    using evaluate_reply [OF assms(8,9,10), of json_loads] assms(11) by simp
  show ?thesis
    using submit_answer_valid [OF assms(1-7) ev, of interview_id current_user_id] assms(12-15)
    by (simp add: new_answer_def dict_get_def persist_answer_def evaluation_response_def)
qed

theorem submit_answer_stores_parsed_reply_witness:
  \<open>submit_answer
     (\<lambda>s. if s = ''{"score": 5, "feedback": "Bagus", "star_elements_detected": {"situation": true, "task": true, "action": true, "result": false}}''
          then Some (JObj [(''score'', JInt 5), (''feedback'', JStr ''Bagus''),
                 (''star_elements_detected'',
                    JObj [(''situation'', JBool True), (''task'', JBool True),
                          (''action'', JBool True), (''result'', JBool False)])])
          else None)
     1
     (JObj [(''stage'', JStr ''Behavioral''), (''question'', JStr ''Q''), (''answer'', JStr ''A''),
            (''job_role'', JStr ''IT Support'')])
     7
     \<lparr>interviews = [\<lparr>i_id = 1, i_user_id = 7, i_job_role = ''IT Support'', i_stage = ''HR'',
                      i_total_score = 0\<rparr>],
      answers = [], flashed = [],
      model = Some (\<lambda>p. Some '' {"score": 5, "feedback": "Bagus", "star_elements_detected": {"situation": true, "task": true, "action": true, "result": false}} ''),
      provider_calls = []\<rparr>
   = (Inr (Json_response 200
        (JObj [(''score'', JInt 5), (''feedback'', JStr ''Bagus''),
               (''star_elements_detected'',
                  JObj [(''situation'', JBool True), (''task'', JBool True),
                        (''action'', JBool True), (''result'', JBool False)])])),
      \<lparr>interviews = [\<lparr>i_id = 1, i_user_id = 7, i_job_role = ''IT Support'', i_stage = ''HR'',
                      i_total_score = 0\<rparr>],
       answers = [\<lparr>a_id = 1, a_interview_id = 1, a_question = JStr ''Q'',
                    a_answer_text = JStr ''A'', a_score = JInt 5, a_feedback = JStr ''Bagus'',
                    a_star_detected = ''{"situation": true, "task": true, "action": true, "result": false}'',
                    a_stage = JStr ''Behavioral''\<rparr>],
       flashed = [],
       model = Some (\<lambda>p. Some '' {"score": 5, "feedback": "Bagus", "star_elements_detected": {"situation": true, "task": true, "action": true, "result": false}} ''),
       provider_calls = [\<lparr>p_template = ''Behavioral'', p_job_role = JStr ''IT Support'',
                          p_question = JStr ''Q'', p_answer = JStr ''A''\<rparr>]\<rparr>)\<close>
  using submit_answer_stores_parsed_reply
    [where data = "JObj [(''stage'', JStr ''Behavioral''), (''question'', JStr ''Q''),
                         (''answer'', JStr ''A''), (''job_role'', JStr ''IT Support'')]"
       and stage = "JStr ''Behavioral''" and question = "JStr ''Q''" and answer = "JStr ''A''"
       and job_role = "JStr ''IT Support''" and prompt_template = "''Behavioral''"
       and interview_id = 1 and current_user_id = 7
       and score = "JInt 5" and feedback = "JStr ''Bagus''"
       and star = "JObj [(''situation'', JBool True), (''task'', JBool True),
                          (''action'', JBool True), (''result'', JBool False)]"]
  by (simp add: dict_get_def prompt_template_get_def PROMPT_TEMPLATES_def strip_def whitespace_def
        owned_def next_id_def quote_def escape_char_def)

text \<open>
  Claim C3. In a process started without a provider credential, \<open>model\<close> is \<open>None\<close> in
  every state the handlers reach, \<open>submit_answer\<close> never calls a provider, and every
  submission that passes the field check is evaluated to the fixed mock result: score 4, the
  mock feedback, and the flags situation, task and result true, action false. That is the
  response, and the \<open>Answer\<close> stored for an interview of the current user carries it.
\<close>

theorem submit_answer_mock_without_provider:
  \<open>w = run json_loads (init_world None) requests \<Longrightarrow>
   model w = None
   \<and> model (snd (submit_answer json_loads interview_id data current_user_id w)) = None
   \<and> provider_calls (snd (submit_answer json_loads interview_id data current_user_id w)) = []
   \<and> (dict_get data ''stage'' (JStr ''HR'') = Inr stage
      \<and> dict_get data ''question'' JNull = Inr question
      \<and> dict_get data ''answer'' JNull = Inr answer
      \<and> dict_get data ''job_role'' JNull = Inr job_role
      \<and> truthy question \<and> truthy answer \<and> truthy job_role \<longrightarrow>
        evaluate json_loads stage job_role question answer w = (Inr mock_result, w)
      \<and> submit_answer json_loads interview_id data current_user_id w =
          (Inr (Json_response 200 mock_result),
           if owned interview_id current_user_id w then
             w\<lparr>answers := answers w @
               [\<lparr>a_id = next_id (map a_id (answers w)), a_interview_id = interview_id,
                 a_question = question, a_answer_text = answer, a_score = JInt 4,
                 a_feedback = JStr ''Mock feedback: Jawaban baik, tapi tambah detail STAR.'',
                 a_star_detected = ''{"situation": true, "task": true, "action": false, "result": true}'',
                 a_stage = stage\<rparr>]\<rparr>
           else w))\<close>
proof -
  assume w: "w = run json_loads (init_world None) requests"
  have m: "model w = None"
    unfolding w by (simp add: run_model init_world_def)
  have c: "provider_calls w = []"
    unfolding w by (simp add: run_no_calls init_world_def)
  have m2: "model (snd (submit_answer json_loads interview_id data current_user_id w)) = None"
    using m by (simp only: submit_answer_model)
  have c2: "provider_calls (snd (submit_answer json_loads interview_id data current_user_id w)) = []"
    using submit_answer_no_calls [OF m] c by simp
  have ev: "evaluate json_loads stage job_role question answer w = (Inr mock_result, w)"
    by (rule evaluate_mock [OF m])
  have v: \<open>submit_answer json_loads interview_id data current_user_id w =
          (Inr (Json_response 200 mock_result),
           if owned interview_id current_user_id w then
             w\<lparr>answers := answers w @
               [\<lparr>a_id = next_id (map a_id (answers w)), a_interview_id = interview_id,
                 a_question = question, a_answer_text = answer, a_score = JInt 4,
                 a_feedback = JStr ''Mock feedback: Jawaban baik, tapi tambah detail STAR.'',
                 a_star_detected = ''{"situation": true, "task": true, "action": false, "result": true}'',
                 a_stage = stage\<rparr>]\<rparr>
           else w)\<close>
    if "dict_get data ''stage'' (JStr ''HR'') = Inr stage"
      and "dict_get data ''question'' JNull = Inr question"
      and "dict_get data ''answer'' JNull = Inr answer"
      and "dict_get data ''job_role'' JNull = Inr job_role"
      and "truthy question" and "truthy answer" and "truthy job_role"
    unfolding submit_answer_valid [OF that ev] new_answer_mock
    by (simp add: persist_answer_def evaluation_response_def)
  show ?thesis
    using m m2 c2 ev v by blast
qed

theorem submit_answer_mock_without_provider_witness:
  \<open>model (run (\<lambda>s. None) (init_world None)
       [Index POST [(''job_role'', ''Software Engineer'')] 7]) = None
   \<and> provider_calls (snd (submit_answer (\<lambda>s. None) 1
        (JObj [(''question'', JStr ''Q''), (''answer'', JStr ''A''),
               (''job_role'', JStr ''Software Engineer'')]) 7
        (run (\<lambda>s. None) (init_world None)
           [Index POST [(''job_role'', ''Software Engineer'')] 7]))) = []
   \<and> submit_answer (\<lambda>s. None) 1
        (JObj [(''question'', JStr ''Q''), (''answer'', JStr ''A''),
               (''job_role'', JStr ''Software Engineer'')]) 7
        (run (\<lambda>s. None) (init_world None)
           [Index POST [(''job_role'', ''Software Engineer'')] 7])
     = (Inr (Json_response 200 mock_result),
        \<lparr>interviews = [\<lparr>i_id = 1, i_user_id = 7, i_job_role = ''Software Engineer'',
                         i_stage = ''HR'', i_total_score = 0\<rparr>],
         answers = [\<lparr>a_id = 1, a_interview_id = 1, a_question = JStr ''Q'',
                     a_answer_text = JStr ''A'', a_score = JInt 4,
                     a_feedback = JStr ''Mock feedback: Jawaban baik, tapi tambah detail STAR.'',
                     a_star_detected = ''{"situation": true, "task": true, "action": false, "result": true}'',
                     a_stage = JStr ''HR''\<rparr>],
         flashed = [], model = None, provider_calls = []\<rparr>)\<close>
proof -
  have w: "run (\<lambda>s. None) (init_world None) [Index POST [(''job_role'', ''Software Engineer'')] 7]
      = \<lparr>interviews = [\<lparr>i_id = 1, i_user_id = 7, i_job_role = ''Software Engineer'',
                         i_stage = ''HR'', i_total_score = 0\<rparr>],
         answers = [], flashed = [], model = None, provider_calls = []\<rparr>"
    by (simp add: index_def Let_def JOB_ROLES_def questions_lookup_def QUESTIONS_def init_world_def
          next_id_def)
  show ?thesis
    using submit_answer_mock_without_provider
      [where w = "run (\<lambda>s. None) (init_world None)
                    [Index POST [(''job_role'', ''Software Engineer'')] 7]"
         and json_loads = "\<lambda>s. None"
         and requests = "[Index POST [(''job_role'', ''Software Engineer'')] 7]"
         and interview_id = 1 and current_user_id = 7
         and data = "JObj [(''question'', JStr ''Q''), (''answer'', JStr ''A''),
                           (''job_role'', JStr ''Software Engineer'')]"
         and stage = "JStr ''HR''" and question = "JStr ''Q''" and answer = "JStr ''A''"
         and job_role = "JStr ''Software Engineer''"]
    unfolding w by (simp add: dict_get_def owned_def next_id_def)
qed

text \<open>
  Claim C1. When the reply of a configured provider is not valid JSON, the evaluation is the
  degraded result: score 3, a feedback holding the first 100 characters of the stripped
  reply, and the four flags false (lemma \<open>parse_failure_gives_degraded_result\<close>). The claim
  also promises that result for an exception raised by the provider call itself. There the
  handler of the \<open>except\<close> clause reads \<open>gemini_output\<close>, which was never assigned, and
  \<open>submit_answer\<close> ends in \<open>UnboundLocalError\<close> (lemma \<open>provider_error_escapes\<close>): no
  evaluation result is produced and nothing is stored. The theorem runs the handler on such
  a request.
\<close>

theorem submit_answer_provider_raises:
  "submit_answer (\<lambda>s. None) 1
     (JObj [(''stage'', JStr ''HR''), (''question'', JStr ''Q''), (''answer'', JStr ''A''),
            (''job_role'', JStr ''IT Support'')])
     7
     \<lparr>interviews = [\<lparr>i_id = 1, i_user_id = 7, i_job_role = ''IT Support'', i_stage = ''HR'',
                      i_total_score = 0\<rparr>],
      answers = [], flashed = [], model = Some (\<lambda>p. None), provider_calls = []\<rparr>
   = (Inl UnboundLocalError,
      \<lparr>interviews = [\<lparr>i_id = 1, i_user_id = 7, i_job_role = ''IT Support'', i_stage = ''HR'',
                      i_total_score = 0\<rparr>],
       answers = [], flashed = [], model = Some (\<lambda>p. None),
       provider_calls = [\<lparr>p_template = ''HR'', p_job_role = JStr ''IT Support'',
                          p_question = JStr ''Q'', p_answer = JStr ''A''\<rparr>]\<rparr>)"
  by (simp add: submit_answer_def dict_get_def evaluate_def prompt_template_get_def
        PROMPT_TEMPLATES_def)

text \<open>
  Claim C4, as amended. A POST to \<open>/submit_answer/<interview_id>\<close> whose JSON object lacks
  \<open>question\<close>, \<open>answer\<close> or \<open>job_role\<close> is answered with status 400 and the body
  \<open>{"error": "Missing data"}\<close>, and changes nothing. A missing \<open>stage\<close> is no error:
  \<open>data.get('stage', 'HR')\<close> reads it as \<open>HR\<close>, and the request is handled exactly as
  the same body with \<open>"stage": "HR"\<close> added.
\<close>

theorem submit_answer_missing_data:
  "(map_of d ''question'' = None \<or> map_of d ''answer'' = None \<or> map_of d ''job_role'' = None
      \<longrightarrow> submit_answer json_loads interview_id (JObj d) current_user_id w =
            (Inr (Json_response 400 (JObj [(''error'', JStr ''Missing data'')])), w))
   \<and> (map_of d ''stage'' = None
      \<longrightarrow> submit_answer json_loads interview_id (JObj d) current_user_id w =
          submit_answer json_loads interview_id (JObj (d @ [(''stage'', JStr ''HR'')]))
            current_user_id w)"
proof (intro conjI impI)
  assume "map_of d ''question'' = None \<or> map_of d ''answer'' = None \<or> map_of d ''job_role'' = None"
  then show "submit_answer json_loads interview_id (JObj d) current_user_id w =
            (Inr (Json_response 400 (JObj [(''error'', JStr ''Missing data'')])), w)"
    by (auto simp: submit_answer_def dict_get_def split: option.split)
next
  assume s: "map_of d ''stage'' = None"
  have st: "dict_get (JObj (d @ [(''stage'', JStr ''HR'')])) ''stage'' (JStr ''HR'')
      = dict_get (JObj d) ''stage'' (JStr ''HR'')"
    using s by (simp add: dict_get_def map_add_def)
  show "submit_answer json_loads interview_id (JObj d) current_user_id w =
          submit_answer json_loads interview_id (JObj (d @ [(''stage'', JStr ''HR'')]))
            current_user_id w"
    unfolding submit_answer_def st
    by (simp only: dict_get_append_stage [OF s] list.inject char.inject simp_thms)
qed

theorem submit_answer_missing_data_witness:
  "submit_answer (\<lambda>s. None) 1 (JObj [(''stage'', JStr ''HR''), (''question'', JStr ''Q''),
       (''job_role'', JStr ''IT Support'')]) 7 (init_world None)
     = (Inr (Json_response 400 (JObj [(''error'', JStr ''Missing data'')])), init_world None)
   \<and> submit_answer (\<lambda>s. None) 1 (JObj [(''question'', JStr ''Q''), (''answer'', JStr ''A''),
       (''job_role'', JStr ''IT Support'')]) 7 (init_world None)
     = submit_answer (\<lambda>s. None) 1 (JObj [(''question'', JStr ''Q''), (''answer'', JStr ''A''),
       (''job_role'', JStr ''IT Support''), (''stage'', JStr ''HR'')]) 7 (init_world None)"
  using submit_answer_missing_data
      [of "[(''stage'', JStr ''HR''), (''question'', JStr ''Q''), (''job_role'', JStr ''IT Support'')]"
          "\<lambda>s. None" 1 7 "init_world None"]
    submit_answer_missing_data
      [of "[(''question'', JStr ''Q''), (''answer'', JStr ''A''), (''job_role'', JStr ''IT Support'')]"
          "\<lambda>s. None" 1 7 "init_world None"]
  by simp

text \<open>
  The claim as stated counts \<open>stage\<close> among the required fields. A body without it is
  accepted: the response is the evaluation and an \<open>Answer\<close> of stage \<open>HR\<close> is stored.
\<close>

theorem submit_answer_missing_stage_counterexample:
  \<open>submit_answer (\<lambda>s. None) 1
     (JObj [(''question'', JStr ''Why?''), (''answer'', JStr ''Because.''),
            (''job_role'', JStr ''Data Scientist'')])
     7
     \<lparr>interviews = [\<lparr>i_id = 1, i_user_id = 7, i_job_role = ''Data Scientist'', i_stage = ''HR'',
                      i_total_score = 0\<rparr>],
      answers = [], flashed = [], model = None, provider_calls = []\<rparr>
   = (Inr (Json_response 200 mock_result),
      \<lparr>interviews = [\<lparr>i_id = 1, i_user_id = 7, i_job_role = ''Data Scientist'', i_stage = ''HR'',
                      i_total_score = 0\<rparr>],
       answers = [\<lparr>a_id = 1, a_interview_id = 1, a_question = JStr ''Why?'',
                    a_answer_text = JStr ''Because.'', a_score = JInt 4,
                    a_feedback = JStr ''Mock feedback: Jawaban baik, tapi tambah detail STAR.'',
                    a_star_detected = ''{"situation": true, "task": true, "action": false, "result": true}'',
                    a_stage = JStr ''HR''\<rparr>],
       flashed = [], model = None, provider_calls = []\<rparr>)\<close>
proof -
  have ev: "evaluate (\<lambda>s. None) (JStr ''HR'') (JStr ''Data Scientist'') (JStr ''Why?'')
      (JStr ''Because.'')
      \<lparr>interviews = [\<lparr>i_id = 1, i_user_id = 7, i_job_role = ''Data Scientist'', i_stage = ''HR'',
                      i_total_score = 0\<rparr>],
      answers = [], flashed = [], model = None, provider_calls = []\<rparr>
    = (Inr mock_result,
       \<lparr>interviews = [\<lparr>i_id = 1, i_user_id = 7, i_job_role = ''Data Scientist'', i_stage = ''HR'',
                      i_total_score = 0\<rparr>],
      answers = [], flashed = [], model = None, provider_calls = []\<rparr>)"
    by (rule evaluate_mock) simp
  show ?thesis
    by (subst submit_answer_valid [OF _ _ _ _ _ _ _ ev])
      (simp_all add: dict_get_def new_answer_mock owned_def next_id_def persist_answer_def
         evaluation_response_def)
qed

text \<open>
  Claim C7. When \<open>interview_id\<close> names no \<open>Interview\<close> of the requesting user, no
  \<open>Answer\<close> row is added and no \<open>Interview\<close> row changes; the caller is not told: a
  submission that passes the field check and is evaluated to \<open>parsed\<close> is answered with
  status 200 and \<open>parsed\<close>, as it is for an interview of the caller.
\<close>

theorem submit_answer_not_owned:
  assumes "\<not> owned interview_id current_user_id w"
  shows "answers (snd (submit_answer json_loads interview_id data current_user_id w)) = answers w
     \<and> interviews (snd (submit_answer json_loads interview_id data current_user_id w))
         = interviews w
     \<and> (dict_get data ''stage'' (JStr ''HR'') = Inr stage
        \<and> dict_get data ''question'' JNull = Inr question
        \<and> dict_get data ''answer'' JNull = Inr answer
        \<and> dict_get data ''job_role'' JNull = Inr job_role
        \<and> truthy question \<and> truthy answer \<and> truthy job_role
        \<and> evaluate json_loads stage job_role question answer w = (Inr parsed, w')
        \<longrightarrow> submit_answer json_loads interview_id data current_user_id w
              = (Inr (Json_response 200 parsed), w'))"
proof (intro conjI impI)
  show "answers (snd (submit_answer json_loads interview_id data current_user_id w)) = answers w"
    using submit_answer_answers [of json_loads interview_id data current_user_id w] assms
    by blast
  show "interviews (snd (submit_answer json_loads interview_id data current_user_id w))
         = interviews w"
    by (rule submit_answer_interviews)
next
  assume h: "dict_get data ''stage'' (JStr ''HR'') = Inr stage
        \<and> dict_get data ''question'' JNull = Inr question
        \<and> dict_get data ''answer'' JNull = Inr answer
        \<and> dict_get data ''job_role'' JNull = Inr job_role
        \<and> truthy question \<and> truthy answer \<and> truthy job_role
        \<and> evaluate json_loads stage job_role question answer w = (Inr parsed, w')"
  then have "submit_answer json_loads interview_id data current_user_id w =
     (if owned interview_id current_user_id w then
        (case new_answer (next_id (map a_id (answers w))) interview_id question answer parsed stage of
           Inl e \<Rightarrow> (Inl e, w')
         | Inr a \<Rightarrow> (Inr (evaluation_response parsed), persist_answer a w'))
      else (Inr (evaluation_response parsed), w'))"
    by (intro submit_answer_valid) blast+
  then show "submit_answer json_loads interview_id data current_user_id w
              = (Inr (Json_response 200 parsed), w')"
    using assms by (simp add: evaluation_response_def)
qed

theorem submit_answer_not_owned_witness:
  "answers (snd (submit_answer (\<lambda>s. None) 1
      (JObj [(''stage'', JStr ''HR''), (''question'', JStr ''Q''), (''answer'', JStr ''A''),
             (''job_role'', JStr ''IT Support'')]) 8
      \<lparr>interviews = [\<lparr>i_id = 1, i_user_id = 7, i_job_role = ''IT Support'', i_stage = ''HR'',
                      i_total_score = 0\<rparr>],
       answers = [], flashed = [], model = None, provider_calls = []\<rparr>)) = []
   \<and> submit_answer (\<lambda>s. None) 1
      (JObj [(''stage'', JStr ''HR''), (''question'', JStr ''Q''), (''answer'', JStr ''A''),
             (''job_role'', JStr ''IT Support'')]) 8
      \<lparr>interviews = [\<lparr>i_id = 1, i_user_id = 7, i_job_role = ''IT Support'', i_stage = ''HR'',
                      i_total_score = 0\<rparr>],
       answers = [], flashed = [], model = None, provider_calls = []\<rparr>
     = (Inr (Json_response 200 mock_result),
        \<lparr>interviews = [\<lparr>i_id = 1, i_user_id = 7, i_job_role = ''IT Support'', i_stage = ''HR'',
                      i_total_score = 0\<rparr>],
         answers = [], flashed = [], model = None, provider_calls = []\<rparr>)"
  using submit_answer_not_owned
    [where interview_id = 1 and current_user_id = 8 and json_loads = "\<lambda>s. None"
       and w = "\<lparr>interviews = [\<lparr>i_id = 1, i_user_id = 7, i_job_role = ''IT Support'',
                     i_stage = ''HR'', i_total_score = 0\<rparr>],
                  answers = [], flashed = [], model = None, provider_calls = []\<rparr>"
       and w' = "\<lparr>interviews = [\<lparr>i_id = 1, i_user_id = 7, i_job_role = ''IT Support'',
                     i_stage = ''HR'', i_total_score = 0\<rparr>],
                  answers = [], flashed = [], model = None, provider_calls = []\<rparr>"
       and data = "JObj [(''stage'', JStr ''HR''), (''question'', JStr ''Q''),
                         (''answer'', JStr ''A''), (''job_role'', JStr ''IT Support'')]"
       and stage = "JStr ''HR''" and question = "JStr ''Q''" and answer = "JStr ''A''"
       and job_role = "JStr ''IT Support''" and parsed = mock_result]
  by (simp add: owned_def dict_get_def evaluate_mock)

section \<open>Stages and the frame of \<open>submit_answer\<close>\<close>

text \<open>
  Claim C8, as amended. In every state the handlers reach, every \<open>Interview\<close> row has a
  stage among \<open>HR\<close>, \<open>Behavioral\<close>, \<open>Technical\<close>: a new row gets \<open>HR\<close> and
  \<open>submit_answer\<close> changes no row. An \<open>Answer\<close> row stores the stage of the request as it
  was sent (\<open>HR\<close> when the body has none), unchecked: the \<open>Answer\<close> rows keep a stage in
  that set provided every \<open>submit_answer\<close> request carried one of the three or none.
\<close>

theorem stage_invariant:
  assumes "\<forall>i\<in>set (interviews w). i_stage i \<in> {''HR'', ''Behavioral'', ''Technical''}"
  shows "(\<forall>i\<in>set (interviews (run json_loads w requests)).
            i_stage i \<in> {''HR'', ''Behavioral'', ''Technical''})
       \<and> ((\<forall>a\<in>set (answers w). a_stage a \<in> JStr ` {''HR'', ''Behavioral'', ''Technical''})
          \<and> (\<forall>interview_id data u stage.
                Submit_answer interview_id data u \<in> set requests
                \<and> dict_get data ''stage'' (JStr ''HR'') = Inr stage
                \<longrightarrow> stage \<in> JStr ` {''HR'', ''Behavioral'', ''Technical''})
          \<longrightarrow> (\<forall>a\<in>set (answers (run json_loads w requests)).
                 a_stage a \<in> JStr ` {''HR'', ''Behavioral'', ''Technical''}))"
proof (intro conjI impI ballI)
  fix i assume "i \<in> set (interviews (run json_loads w requests))"
  with run_interviews [of json_loads w requests]
  have "i \<in> set (interviews w) \<or> i_stage i = ''HR''" by blast
  then show "i_stage i \<in> {''HR'', ''Behavioral'', ''Technical''}"
    using assms by auto
next
  fix a
  assume h: "(\<forall>a\<in>set (answers w). a_stage a \<in> JStr ` {''HR'', ''Behavioral'', ''Technical''})
          \<and> (\<forall>interview_id data u stage.
                Submit_answer interview_id data u \<in> set requests
                \<and> dict_get data ''stage'' (JStr ''HR'') = Inr stage
                \<longrightarrow> stage \<in> JStr ` {''HR'', ''Behavioral'', ''Technical''})"
    and a: "a \<in> set (answers (run json_loads w requests))"
  from a run_answers [of json_loads w requests]
  have "a \<in> set (answers w)
      \<or> (\<exists>interview_id data u. Submit_answer interview_id data u \<in> set requests
                \<and> dict_get data ''stage'' (JStr ''HR'') = Inr (a_stage a))"
    by blast
  then show "a_stage a \<in> JStr ` {''HR'', ''Behavioral'', ''Technical''}"
    using h by blast
qed

theorem stage_invariant_witness:
  "map i_stage (interviews (run (\<lambda>s. None) (init_world None)
     [Index POST [(''job_role'', ''UI/UX Designer'')] 7,
      Submit_answer 1 (JObj [(''stage'', JStr ''Technical''), (''question'', JStr ''Q''),
         (''answer'', JStr ''A''), (''job_role'', JStr ''UI/UX Designer'')]) 7])) = [''HR'']
   \<and> map a_stage (answers (run (\<lambda>s. None) (init_world None)
     [Index POST [(''job_role'', ''UI/UX Designer'')] 7,
      Submit_answer 1 (JObj [(''stage'', JStr ''Technical''), (''question'', JStr ''Q''),
         (''answer'', JStr ''A''), (''job_role'', JStr ''UI/UX Designer'')]) 7]))
       = [JStr ''Technical'']
   \<and> JStr ''Technical'' \<in> JStr ` {''HR'', ''Behavioral'', ''Technical''}"
  using stage_invariant [where w = "init_world None" and json_loads = "\<lambda>s. None"
      and requests = "[Index POST [(''job_role'', ''UI/UX Designer'')] 7,
         Submit_answer 1 (JObj [(''stage'', JStr ''Technical''), (''question'', JStr ''Q''),
           (''answer'', JStr ''A''), (''job_role'', JStr ''UI/UX Designer'')]) 7]"]
  unfolding example_run by (simp add: init_world_def dict_get_def)

text \<open>
  The claim as stated also bounds the stage of every \<open>Answer\<close> row. A request with the
  stage \<open>Lunch\<close> is accepted, and the row stored carries that stage.
\<close>

theorem answer_stage_counterexample:
  "map a_stage (answers (snd (submit_answer (\<lambda>s. None) 1
      (JObj [(''stage'', JStr ''Lunch''), (''question'', JStr ''Q''), (''answer'', JStr ''A''),
             (''job_role'', JStr ''IT Support'')]) 7
      \<lparr>interviews = [\<lparr>i_id = 1, i_user_id = 7, i_job_role = ''IT Support'', i_stage = ''HR'',
                      i_total_score = 0\<rparr>],
       answers = [], flashed = [], model = None, provider_calls = []\<rparr>))) = [JStr ''Lunch'']
   \<and> JStr ''Lunch'' \<notin> JStr ` {''HR'', ''Behavioral'', ''Technical''}"
proof -
  have ev: "evaluate (\<lambda>s. None) (JStr ''Lunch'') (JStr ''IT Support'') (JStr ''Q'') (JStr ''A'')
      \<lparr>interviews = [\<lparr>i_id = 1, i_user_id = 7, i_job_role = ''IT Support'', i_stage = ''HR'',
                      i_total_score = 0\<rparr>],
       answers = [], flashed = [], model = None, provider_calls = []\<rparr>
    = (Inr mock_result,
      \<lparr>interviews = [\<lparr>i_id = 1, i_user_id = 7, i_job_role = ''IT Support'', i_stage = ''HR'',
                      i_total_score = 0\<rparr>],
       answers = [], flashed = [], model = None, provider_calls = []\<rparr>)"
    by (rule evaluate_mock) simp
  show ?thesis
    by (subst submit_answer_valid [OF _ _ _ _ _ _ _ ev])
      (simp_all add: dict_get_def new_answer_mock owned_def next_id_def persist_answer_def
         evaluation_response_def)
qed

text \<open>
  Claim C9. \<open>submit_answer\<close> leaves the table of interviews exactly as it was, so no stage
  and no \<open>total_score\<close> changes, and it either leaves the answers as they were or appends
  one \<open>Answer\<close>. In every state reached from the empty database every \<open>Interview\<close> has
  its default \<open>total_score\<close> 0.0 and the stage \<open>HR\<close>.
\<close>

theorem submit_answer_only_inserts_answer:
  "interviews (snd (submit_answer json_loads interview_id data current_user_id w)) = interviews w
   \<and> (answers (snd (submit_answer json_loads interview_id data current_user_id w)) = answers w
      \<or> (\<exists>a. answers (snd (submit_answer json_loads interview_id data current_user_id w))
               = answers w @ [a]))
   \<and> (\<forall>i\<in>set (interviews (run json_loads (init_world m) requests)).
         i_total_score i = 0 \<and> i_stage i = ''HR'')"
proof (intro conjI)
  show "interviews (snd (submit_answer json_loads interview_id data current_user_id w))
      = interviews w"
    by (rule submit_answer_interviews)
  show "answers (snd (submit_answer json_loads interview_id data current_user_id w)) = answers w
      \<or> (\<exists>a. answers (snd (submit_answer json_loads interview_id data current_user_id w))
               = answers w @ [a])"
    using submit_answer_answers [of json_loads interview_id data current_user_id w] by blast
  show "\<forall>i\<in>set (interviews (run json_loads (init_world m) requests)).
         i_total_score i = 0 \<and> i_stage i = ''HR''"
    using run_interviews [of json_loads "init_world m" requests]
    by (auto simp: init_world_def)
qed

theorem submit_answer_only_inserts_answer_witness:
  "interviews (snd (submit_answer (\<lambda>s. None) 1
      (JObj [(''stage'', JStr ''HR''), (''question'', JStr ''Q''), (''answer'', JStr ''A''),
             (''job_role'', JStr ''Data Scientist'')]) 7
      \<lparr>interviews = [\<lparr>i_id = 1, i_user_id = 7, i_job_role = ''Data Scientist'',
                      i_stage = ''HR'', i_total_score = 0\<rparr>],
       answers = [], flashed = [], model = None, provider_calls = []\<rparr>))
     = [\<lparr>i_id = 1, i_user_id = 7, i_job_role = ''Data Scientist'', i_stage = ''HR'',
         i_total_score = 0\<rparr>]
   \<and> map i_total_score (interviews (run (\<lambda>s. None) (init_world None)
     [Index POST [(''job_role'', ''UI/UX Designer'')] 7,
      Submit_answer 1 (JObj [(''stage'', JStr ''Technical''), (''question'', JStr ''Q''),
         (''answer'', JStr ''A''), (''job_role'', JStr ''UI/UX Designer'')]) 7])) = [0]"
  using submit_answer_only_inserts_answer
    [where json_loads = "\<lambda>s. None" and interview_id = 1 and current_user_id = 7
       and data = "JObj [(''stage'', JStr ''HR''), (''question'', JStr ''Q''),
                         (''answer'', JStr ''A''), (''job_role'', JStr ''Data Scientist'')]"
       and w = "\<lparr>interviews = [\<lparr>i_id = 1, i_user_id = 7, i_job_role = ''Data Scientist'',
                      i_stage = ''HR'', i_total_score = 0\<rparr>],
                  answers = [], flashed = [], model = None, provider_calls = []\<rparr>"
       and m = None
       and requests = "[Index POST [(''job_role'', ''UI/UX Designer'')] 7,
         Submit_answer 1 (JObj [(''stage'', JStr ''Technical''), (''question'', JStr ''Q''),
           (''answer'', JStr ''A''), (''job_role'', JStr ''UI/UX Designer'')]) 7]"]
  unfolding example_run by simp

text \<open>
  Claim C10, as amended. When the reply of the provider parses as a JSON object, each of the keys
  \<open>score\<close>, \<open>feedback\<close> and \<open>star_elements_detected\<close> that it lacks is replaced in the
  stored \<open>Answer\<close> by its default: score 0, the empty feedback, and \<open>{}\<close> as the
  serialised flags. A missing \<open>score\<close> thus stores a score outside 1 to 5.
\<close>

theorem submit_answer_defaults_for_missing_keys:
  assumes "dict_get data ''stage'' (JStr ''HR'') = Inr stage"
    and "dict_get data ''question'' JNull = Inr question"
    and "dict_get data ''answer'' JNull = Inr answer"
    and "dict_get data ''job_role'' JNull = Inr job_role"
    and "truthy question" and "truthy answer" and "truthy job_role"
    and "model w = Some generate_content"
    and "prompt_template_get stage = Inr prompt_template"
    and "generate_content \<lparr>p_template = prompt_template, p_job_role = job_role,
            p_question = question, p_answer = answer\<rparr> = Some reply"
    and "json_loads (strip reply) = Some (JObj kvs)"
    and "owned interview_id current_user_id w"
  shows "submit_answer json_loads interview_id data current_user_id w =
           (Inr (Json_response 200 (JObj kvs)),
            w\<lparr>provider_calls := provider_calls w @
                 [\<lparr>p_template = prompt_template, p_job_role = job_role,
                   p_question = question, p_answer = answer\<rparr>],
              answers := answers w @
                 [\<lparr>a_id = next_id (map a_id (answers w)), a_interview_id = interview_id,
                   a_question = question, a_answer_text = answer,
                   a_score = (case map_of kvs ''score'' of None \<Rightarrow> JInt 0 | Some v \<Rightarrow> v),
                   a_feedback = (case map_of kvs ''feedback'' of None \<Rightarrow> JStr [] | Some v \<Rightarrow> v),
                   a_star_detected =
                     (case map_of kvs ''star_elements_detected'' of
                        None \<Rightarrow> ''{}'' | Some v \<Rightarrow> json_dumps v),
                   a_stage = stage\<rparr>]\<rparr>)
         \<and> (map_of kvs ''score'' = None \<longrightarrow>
              a_score (last (answers
                 (snd (submit_answer json_loads interview_id data current_user_id w))))
                \<notin> JInt ` {1..5})"
proof -
  have ev: "evaluate json_loads stage job_role question answer w =
     (Inr (JObj kvs),
      w\<lparr>provider_calls := provider_calls w @
           [\<lparr>p_template = prompt_template, p_job_role = job_role,
             p_question = question, p_answer = answer\<rparr>]\<rparr>)"
    using evaluate_reply [OF assms(8,9,10), of json_loads] assms(11) by simp
  have a: "new_answer row_id interview_id question answer (JObj kvs) stage =
     Inr \<lparr>a_id = row_id, a_interview_id = interview_id,
           a_question = question, a_answer_text = answer,
           a_score = (case map_of kvs ''score'' of None \<Rightarrow> JInt 0 | Some v \<Rightarrow> v),
           a_feedback = (case map_of kvs ''feedback'' of None \<Rightarrow> JStr [] | Some v \<Rightarrow> v),
           a_star_detected =
             (case map_of kvs ''star_elements_detected'' of
                None \<Rightarrow> ''{}'' | Some v \<Rightarrow> json_dumps v),
           a_stage = stage\<rparr>" for row_id
    by (simp add: new_answer_def dict_get_def split: option.split)
  have s: "submit_answer json_loads interview_id data current_user_id w =
           (Inr (Json_response 200 (JObj kvs)),
            w\<lparr>provider_calls := provider_calls w @
                 [\<lparr>p_template = prompt_template, p_job_role = job_role,
                   p_question = question, p_answer = answer\<rparr>],
              answers := answers w @
                 [\<lparr>a_id = next_id (map a_id (answers w)), a_interview_id = interview_id,
                   a_question = question, a_answer_text = answer,
                   a_score = (case map_of kvs ''score'' of None \<Rightarrow> JInt 0 | Some v \<Rightarrow> v),
                   a_feedback = (case map_of kvs ''feedback'' of None \<Rightarrow> JStr [] | Some v \<Rightarrow> v),
                   a_star_detected =
                     (case map_of kvs ''star_elements_detected'' of
                        None \<Rightarrow> ''{}'' | Some v \<Rightarrow> json_dumps v),
                   a_stage = stage\<rparr>]\<rparr>)"
    unfolding submit_answer_valid [OF assms(1-7) ev] a
    using assms(12) by (simp add: persist_answer_def evaluation_response_def)
  show ?thesis
    unfolding s by auto
qed

theorem submit_answer_defaults_for_missing_keys_witness:
  "submit_answer (\<lambda>s. if s = ''{}'' then Some (JObj []) else None) 1
     (JObj [(''stage'', JStr ''HR''), (''question'', JStr ''Q''), (''answer'', JStr ''A''),
            (''job_role'', JStr ''IT Support'')])
     7
     \<lparr>interviews = [\<lparr>i_id = 1, i_user_id = 7, i_job_role = ''IT Support'', i_stage = ''HR'',
                      i_total_score = 0\<rparr>],
      answers = [], flashed = [], model = Some (\<lambda>p. Some ''{} ''), provider_calls = []\<rparr>
   = (Inr (Json_response 200 (JObj [])),
      \<lparr>interviews = [\<lparr>i_id = 1, i_user_id = 7, i_job_role = ''IT Support'', i_stage = ''HR'',
                      i_total_score = 0\<rparr>],
       answers = [\<lparr>a_id = 1, a_interview_id = 1, a_question = JStr ''Q'',
                    a_answer_text = JStr ''A'', a_score = JInt 0, a_feedback = JStr [],
                    a_star_detected = ''{}'', a_stage = JStr ''HR''\<rparr>],
       flashed = [], model = Some (\<lambda>p. Some ''{} ''),
       provider_calls = [\<lparr>p_template = ''HR'', p_job_role = JStr ''IT Support'',
                          p_question = JStr ''Q'', p_answer = JStr ''A''\<rparr>]\<rparr>)"
  using submit_answer_defaults_for_missing_keys
    [where data = "JObj [(''stage'', JStr ''HR''), (''question'', JStr ''Q''),
                         (''answer'', JStr ''A''), (''job_role'', JStr ''IT Support'')]"
       and stage = "JStr ''HR''" and question = "JStr ''Q''" and answer = "JStr ''A''"
       and job_role = "JStr ''IT Support''" and prompt_template = "''HR''"
       and interview_id = 1 and current_user_id = 7
       and generate_content = "\<lambda>p. Some ''{} ''" and reply = "''{} ''" and kvs = "[]"
       and json_loads = "\<lambda>s. if s = ''{}'' then Some (JObj []) else None"
       and w = "\<lparr>interviews = [\<lparr>i_id = 1, i_user_id = 7, i_job_role = ''IT Support'',
                     i_stage = ''HR'', i_total_score = 0\<rparr>],
                  answers = [], flashed = [], model = Some (\<lambda>p. Some ''{} ''),
                  provider_calls = []\<rparr>"]
  by (simp add: dict_get_def prompt_template_get_def PROMPT_TEMPLATES_def strip_def
        whitespace_def owned_def next_id_def)

text \<open>
  The claim as stated speaks of every reply that parses as valid JSON. A reply \<open>5\<close> is
  valid JSON and has none of the keys, but \<open>parsed.get\<close> raises \<open>AttributeError\<close> on an
  \<open>int\<close>: the request ends in that error and no \<open>Answer\<close> is stored.
\<close>

theorem submit_answer_non_object_reply_counterexample:
  "submit_answer (\<lambda>s. if s = ''5'' then Some (JInt 5) else None) 1
     (JObj [(''stage'', JStr ''HR''), (''question'', JStr ''Q''), (''answer'', JStr ''A''),
            (''job_role'', JStr ''IT Support'')])
     7
     \<lparr>interviews = [\<lparr>i_id = 1, i_user_id = 7, i_job_role = ''IT Support'', i_stage = ''HR'',
                      i_total_score = 0\<rparr>],
      answers = [], flashed = [], model = Some (\<lambda>p. Some ''5''), provider_calls = []\<rparr>
   = (Inl AttributeError,
      \<lparr>interviews = [\<lparr>i_id = 1, i_user_id = 7, i_job_role = ''IT Support'', i_stage = ''HR'',
                      i_total_score = 0\<rparr>],
       answers = [], flashed = [], model = Some (\<lambda>p. Some ''5''),
       provider_calls = [\<lparr>p_template = ''HR'', p_job_role = JStr ''IT Support'',
                          p_question = JStr ''Q'', p_answer = JStr ''A''\<rparr>]\<rparr>)"
  by (simp add: submit_answer_def dict_get_def evaluate_def prompt_template_get_def
        PROMPT_TEMPLATES_def strip_def whitespace_def owned_def new_answer_def Let_def)

end
